theory Spec2Isabelle
  imports
    Complex_Main
    "HOL-Library.List_Lexorder"
    "HOL-Library.Log_Nat"
    "HOL-Library.Multiset"
begin

chapter \<open>FinSight: the analytics engine of \<^verbatim>\<open>src/App.tsx\<close>\<close>

text \<open>
  A shallow embedding of the pure functions and state mutations of the dashboard
  component. Conventions of the embedding:

  \<^item> A JavaScript string is the list of its UTF-16 code units, each a natural number
    (\<open>jsstring\<close>); \<open>js ''abc''\<close> is the string of an ASCII literal. Comparison of
    strings (\<open><\<close>, \<open>\<le>\<close>) is the lexicographic order on code units, as in
    ECMAScript.
  \<^item> What the program takes from its host and what ECMAScript leaves to the
    implementation is a field of the record \<open>Host\<close>: \<open>toLowerCase\<close> (the Unicode
    case tables), the reading of a date-time string, the offsets of the local time
    zone, \<open>toFixed\<close>, and \<open>Array.prototype.sort\<close>. What a property needs of the host
    is a hypothesis of its theorem.
  \<^item> Amounts in cents are integers (\<^typ>\<open>int\<close>), as \<open>Math.round\<close> makes them. The
    program holds them in IEEE-754 doubles: every sum, difference, product and quotient
    is rounded as a double rounds it (\<open>fl\<close> below: to the nearest value with a 53-bit
    significand, ties to even), so sums of integers are exact only below \<open>2^53\<close>.
    The exponent range is not bounded: a decimal numeral of more than 300 digits, which
    overflows to \<open>Infinity\<close> in the program, is outside the embedding.
  \<^item> \<open>undefined\<close> (a missing cell, a missing note), \<open>NaN\<close> and \<open>Invalid Date\<close> are
    \<open>None\<close>.
  \<^item> The component's React state is the record \<open>Dashboard\<close>; each handler is a
    function from the state before to the state after. The identifiers that \<open>uid\<close>
    draws from the clock and the random generator, and the value of \<open>todayISO()\<close>,
    are parameters of the handlers that use them.
\<close>

section \<open>JavaScript primitives\<close>

subsection \<open>Strings\<close>

type_synonym jsstring = "nat list"

definition js :: "string \<Rightarrow> jsstring" where
  "js s = map of_char s"

text \<open>
  The white space and the line terminators of ECMAScript: TAB, LF, VT, FF, CR, SP,
  NBSP, U+1680, U+2000 to U+200A, U+2028, U+2029, U+202F, U+205F, U+3000, U+FEFF.
\<close>

definition isWhitespace :: "nat \<Rightarrow> bool" where
  "isWhitespace c =
     (c \<in> set [9, 10, 11, 12, 13, 32, 160, 5760, 8232, 8233, 8239, 8287, 12288, 65279]
      \<or> (8192 \<le> c \<and> c \<le> 8202))"

definition trim :: "jsstring \<Rightarrow> jsstring" where
  "trim s = rev (dropWhile isWhitespace (rev (dropWhile isWhitespace s)))"

text \<open>\<open>s.includes(sub)\<close>: \<open>sub\<close> occurs in \<open>s\<close> as a contiguous block.\<close>

fun str_includes :: "jsstring \<Rightarrow> jsstring \<Rightarrow> bool" where
  "str_includes [] sub = (sub = [])"
| "str_includes (c # cs) sub = (take (length sub) (c # cs) = sub \<or> str_includes cs sub)"

text \<open>\<open>xs.indexOf(x)\<close>, with \<open>None\<close> for \<open>-1\<close>.\<close>

fun indexOf :: "'a list \<Rightarrow> 'a \<Rightarrow> nat option" where
  "indexOf [] x = None"
| "indexOf (y # ys) x = (if y = x then Some 0 else map_option Suc (indexOf ys x))"

text \<open>\<open>r[i]\<close> on an array: \<open>undefined\<close> out of range, and for the index \<open>-1\<close>.\<close>

definition cell :: "'a list \<Rightarrow> nat option \<Rightarrow> 'a option" where
  "cell r i = (case i of None \<Rightarrow> None | Some k \<Rightarrow> if k < length r then Some (r ! k) else None)"

text \<open>\<open>v || ''\<close> on a string that may be undefined.\<close>

definition orEmpty :: "jsstring option \<Rightarrow> jsstring" where
  "orEmpty v = (case v of None \<Rightarrow> [] | Some s \<Rightarrow> s)"

text \<open>\<open>xs.join(sep)\<close>.\<close>

fun join :: "jsstring \<Rightarrow> jsstring list \<Rightarrow> jsstring" where
  "join sep [] = []"
| "join sep [x] = x"
| "join sep (x # y # ys) = x @ sep @ join sep (y # ys)"

subsection \<open>Numbers\<close>

text \<open>
  \<open>fl x\<close> is the double nearest to the rational \<open>x\<close>: \<open>ilog2\<close> finds the binary
  exponent, the significand is scaled to 53 bits and rounded, ties to even.
\<close>

definition ilog2 :: "rat \<Rightarrow> int" where
  "ilog2 x = (let (p, q) = quotient_of x; b = bitlen p - bitlen q
              in if 2 powi b \<le> x then b else b - 1)"

definition roundHalfEven :: "rat \<Rightarrow> int" where
  "roundHalfEven y =
     (let f = \<lfloor>y\<rfloor>; r = y - of_int f
      in if r < 1 / 2 then f else if 1 / 2 < r then f + 1 else if even f then f else f + 1)"

definition fl :: "rat \<Rightarrow> rat" where
  "fl x = (if x = 0 then 0
           else let u = 2 powi (ilog2 \<bar>x\<bar> - 52) in of_int (roundHalfEven (x / u)) * u)"

text \<open>\<open>Math.round\<close>: the nearest integer, a tie going up.\<close>

definition Math_round :: "rat \<Rightarrow> int" where
  "Math_round x = \<lfloor>x + 1 / 2\<rfloor>"

text \<open>
  \<open>a + b\<close> and \<open>a - b\<close> on two doubles that are integers: the double nearest to
  the exact result, which is an integer again.
\<close>

definition addD :: "int \<Rightarrow> int \<Rightarrow> int" where
  "addD a b = \<lfloor>fl (of_int a + of_int b)\<rfloor>"

definition subD :: "int \<Rightarrow> int \<Rightarrow> int" where
  "subD a b = \<lfloor>fl (of_int a - of_int b)\<rfloor>"

text \<open>Decimal digits: \<open>String(n)\<close> for an integer, and reading digits back.\<close>

definition isDigit :: "nat \<Rightarrow> bool" where
  "isDigit c = (48 \<le> c \<and> c \<le> 57)"

fun showNat :: "nat \<Rightarrow> jsstring" where
  "showNat n = (if n < 10 then [48 + n] else showNat (n div 10) @ [48 + n mod 10])"

declare showNat.simps [simp del]

definition showInt :: "int \<Rightarrow> jsstring" where
  "showInt i = (if i < 0 then 45 # showNat (nat (- i)) else showNat (nat i))"

definition readNat :: "jsstring \<Rightarrow> nat" where
  "readNat s = foldl (\<lambda>acc c. 10 * acc + (c - 48)) 0 s"


text \<open>\<open>s.padStart(2, '0')\<close>.\<close>

definition padStart2 :: "jsstring \<Rightarrow> jsstring" where
  "padStart2 s = replicate (2 - length s) 48 @ s"

text \<open>
  \<open>Number(s)\<close> for a string of digits, dots and minus signs (all that
  \<open>parseMoneyToCents\<close> leaves): an optional minus, then digits with at most one dot
  and at least one digit. The value is the double nearest to the decimal numeral.
\<close>

definition Number :: "jsstring \<Rightarrow> rat option" where
  "Number s =
     (let neg = (s \<noteq> [] \<and> hd s = 45);
          body = (if neg then tl s else s);
          ip = takeWhile isDigit body;
          rest = dropWhile isDigit body;
          fp = tl rest;
          sgn = (if neg then - 1 else 1)
      in if rest = [] then
           (if ip = [] then None else Some (fl (of_int (sgn * int (readNat ip)))))
         else if hd rest = 46 \<and> list_all isDigit fp \<and> (ip \<noteq> [] \<or> fp \<noteq> [])
         then Some (fl (of_int (sgn * int (readNat (ip @ fp))) / of_int (10 ^ length fp)))
         else None)"

definition parseMoneyToCents :: "jsstring \<Rightarrow> int" where
  "parseMoneyToCents input =
     (let cleaned = filter (\<lambda>c. isDigit c \<or> c = 46 \<or> c = 45) input
      in if cleaned = [] \<or> cleaned = [45] \<or> cleaned = [46] then 0
         else case Number cleaned of
                None \<Rightarrow> 0
              | Some val \<Rightarrow> Math_round (fl (val * 100)))"

subsection \<open>The calendar\<close>

text \<open>
  The day arithmetic of the ECMAScript specification (\<open>DaysInYear\<close>,
  \<open>DayFromYear\<close>, \<open>YearFromTime\<close>, \<open>MonthFromTime\<close>, \<open>DateFromTime\<close>,
  \<open>MakeDay\<close>), on day numbers: the days since 1970-01-01 in the proleptic Gregorian
  calendar.
\<close>

definition daysInYear :: "int \<Rightarrow> int" where
  "daysInYear y =
     (if y mod 4 \<noteq> 0 then 365 else if y mod 100 \<noteq> 0 then 366
      else if y mod 400 \<noteq> 0 then 365 else 366)"

definition dayFromYear :: "int \<Rightarrow> int" where
  "dayFromYear y =
     365 * (y - 1970) + (y - 1969) div 4 - (y - 1901) div 100 + (y - 1601) div 400"

text \<open>
  \<open>YearFromTime\<close>: the largest year that starts on or before the day, found by
  counting up from a year that does.
\<close>

function yearSearch :: "int \<Rightarrow> int \<Rightarrow> int" where
  "yearSearch y t = (if dayFromYear (y + 1) \<le> t then yearSearch (y + 1) t else y)"
  by pat_completeness auto
termination
proof (relation "measure (\<lambda>(y, t). nat (t + 1 - dayFromYear (y + 1)))")
  show "wf (measure (\<lambda>(y, t). nat (t + 1 - dayFromYear (y + 1))))"
    by simp
next
  fix y t :: int
  assume le: "dayFromYear (y + 1) \<le> t"
  have a: "(y + 1 - 1969) div 4 \<le> (y + 1 + 1 - 1969) div 4"
    by (rule zdiv_mono1) simp_all
  have "(y + 1 + 1 - 1901) div 100 \<le> ((y + 1 - 1901) + 100) div 100"
    by (rule zdiv_mono1) simp_all
  also have "\<dots> = (y + 1 - 1901) div 100 + 1"
    by simp
  finally have b: "(y + 1 + 1 - 1901) div 100 \<le> (y + 1 - 1901) div 100 + 1" .
  have c: "(y + 1 - 1601) div 400 \<le> (y + 1 + 1 - 1601) div 400"
    by (rule zdiv_mono1) simp_all
  have "dayFromYear (y + 1) < dayFromYear (y + 1 + 1)"
    unfolding dayFromYear_def using a b c by simp
  with le show "((y + 1, t), (y, t)) \<in> measure (\<lambda>(y, t). nat (t + 1 - dayFromYear (y + 1)))"
    by simp
qed

declare yearSearch.simps [simp del]

definition yearFromDay :: "int \<Rightarrow> int" where
  "yearFromDay t = yearSearch (1970 + (if 0 \<le> t then t div 366 else t div 365)) t"

text \<open>The days of a year before its month \<open>m\<close> (0 = January), \<open>l\<close> being 1 in a leap year.\<close>

definition monthStart :: "int \<Rightarrow> int \<Rightarrow> int" where
  "monthStart m l =
     (if m \<le> 0 then 0 else if m = 1 then 31 else if m = 2 then 59 + l
      else if m = 3 then 90 + l else if m = 4 then 120 + l else if m = 5 then 151 + l
      else if m = 6 then 181 + l else if m = 7 then 212 + l else if m = 8 then 243 + l
      else if m = 9 then 273 + l else if m = 10 then 304 + l else if m = 11 then 334 + l
      else 365 + l)"

definition inLeapYear :: "int \<Rightarrow> int" where
  "inLeapYear y = (if daysInYear y = 366 then 1 else 0)"

definition dayWithinYear :: "int \<Rightarrow> int" where
  "dayWithinYear t = t - dayFromYear (yearFromDay t)"

definition monthFromDay :: "int \<Rightarrow> int" where
  "monthFromDay t =
     (let d = dayWithinYear t; l = inLeapYear (yearFromDay t)
      in if d < 31 then 0 else if d < 59 + l then 1 else if d < 90 + l then 2
         else if d < 120 + l then 3 else if d < 151 + l then 4 else if d < 181 + l then 5
         else if d < 212 + l then 6 else if d < 243 + l then 7 else if d < 273 + l then 8
         else if d < 304 + l then 9 else if d < 334 + l then 10 else 11)"

definition dateFromDay :: "int \<Rightarrow> int" where
  "dateFromDay t =
     dayWithinYear t - monthStart (monthFromDay t) (inLeapYear (yearFromDay t)) + 1"

definition makeDay :: "int \<Rightarrow> int \<Rightarrow> int \<Rightarrow> int" where
  "makeDay year month dt =
     (let ym = year + month div 12; mn = month mod 12
      in dayFromYear ym + monthStart mn (inLeapYear ym) + dt - 1)"

definition msPerDay :: int where
  "msPerDay = 86400000"

text \<open>\<open>TimeClip\<close>: a time value is at most 8.64e15 milliseconds from the epoch.\<close>

definition timeClip :: "int \<Rightarrow> int option" where
  "timeClip t = (if \<bar>t\<bar> \<le> 8640000000000000 then Some t else None)"



record DateRange =
  range_min :: jsstring
  range_max :: jsstring


definition dateInRange :: "jsstring \<Rightarrow> jsstring \<Rightarrow> jsstring \<Rightarrow> bool" where
  "dateInRange dateISO minISO maxISO = (minISO \<le> dateISO \<and> dateISO \<le> maxISO)"

section \<open>Data model\<close>

datatype TxType = Expense | Income

record Transaction =
  tx_id :: jsstring
  date :: jsstring
  merchant :: jsstring
  amountCents :: int
  tx_type :: TxType
  categoryId :: jsstring
  accountId :: jsstring
  tx_note :: "jsstring option"

record Category =
  cat_id :: jsstring
  cat_name :: jsstring
  emoji :: "jsstring option"
  monthlyBudgetCents :: "int option"

datatype AccountType = Chequing | Credit | Savings

record Account =
  acc_id :: jsstring
  acc_name :: jsstring
  acc_type :: AccountType

record Rule =
  rule_id :: jsstring
  contains :: jsstring
  rule_categoryId :: jsstring

datatype Currency = CAD | USD

record Settings =
  currency :: Currency
  hideCents :: bool
  smartCategorize :: bool

record AppState =
  version :: nat
  categories :: "Category list"
  accounts :: "Account list"
  rules :: "Rule list"
  transactions :: "Transaction list"
  settings :: Settings

text \<open>The records that the aggregations return.\<close>

record Totals =
  income :: int
  expense :: int
  net :: int
  savingsRate :: int

record DayNet =
  d_date :: jsstring
  netCents :: int
  incomeCents :: int
  expenseCents :: int

record BudgetRow =
  row_categoryId :: jsstring
  budgetCents :: int
  spentCents :: int
  remainingCents :: int

record BudgetStats =
  rows :: "BudgetRow list"
  totalBudget :: int
  totalSpent :: int
  remaining :: int

record CashflowPoint =
  p_date :: jsstring
  runningCents :: int
  p_incomeCents :: int
  p_expenseCents :: int

section \<open>The host\<close>

text \<open>
  What the program calls and does not define:
  \<^item> \<open>toLowerCase\<close> is \<open>String.prototype.toLowerCase\<close>;
  \<^item> \<open>dateParse s\<close> is the time value of \<open>new Date(s)\<close> for a string \<open>s\<close>, in
    milliseconds since the epoch;
  \<^item> \<open>tzaUTC t\<close> and \<open>tzaLocal t\<close> are the offsets of the local time zone in
    milliseconds, \<open>LocalTZA(t, true)\<close> for a time value \<open>t\<close> and
    \<open>LocalTZA(t, false)\<close> for a local time \<open>t\<close>;
  \<^item> \<open>toFixed2 n\<close> is the string \<open>(n / 100).toFixed(2)\<close>;
  \<^item> \<open>sortTx\<close>, \<open>sortDays\<close> and \<open>sortRows\<close> are \<open>Array.prototype.sort\<close> with a
    comparator, on the three arrays that the program sorts.
\<close>

record Host =
  toLowerCase :: "jsstring \<Rightarrow> jsstring"
  dateParse :: "jsstring \<Rightarrow> int option"
  tzaUTC :: "int \<Rightarrow> int"
  tzaLocal :: "int \<Rightarrow> int"
  toFixed2 :: "int \<Rightarrow> jsstring"
  sortTx :: "(Transaction \<Rightarrow> Transaction \<Rightarrow> int) \<Rightarrow> Transaction list \<Rightarrow> Transaction list"
  sortDays :: "(DayNet \<Rightarrow> DayNet \<Rightarrow> int) \<Rightarrow> DayNet list \<Rightarrow> DayNet list"
  sortRows :: "(BudgetRow \<Rightarrow> BudgetRow \<Rightarrow> int) \<Rightarrow> BudgetRow list \<Rightarrow> BudgetRow list"

definition safeLower :: "Host \<Rightarrow> jsstring option \<Rightarrow> jsstring" where
  "safeLower h s = toLowerCase h (orEmpty s)"

section \<open>Dates\<close>

text \<open>
  A \<open>Date\<close> is its time value, \<open>None\<close> when it is invalid. The getters read the
  local time \<open>LocalTime(t) = t + LocalTZA(t, true)\<close>; \<open>setDate\<close> builds a local time
  and converts it with \<open>UTC(t) = t - LocalTZA(t, false)\<close>.
\<close>

definition localTime :: "Host \<Rightarrow> int \<Rightarrow> int" where
  "localTime h t = t + tzaUTC h t"

definition utcTime :: "Host \<Rightarrow> int \<Rightarrow> int" where
  "utcTime h t = t - tzaLocal h t"

definition getFullYear :: "Host \<Rightarrow> int \<Rightarrow> int" where
  "getFullYear h t = yearFromDay (localTime h t div msPerDay)"

definition getMonth :: "Host \<Rightarrow> int \<Rightarrow> int" where
  "getMonth h t = monthFromDay (localTime h t div msPerDay)"

definition getDate :: "Host \<Rightarrow> int \<Rightarrow> int" where
  "getDate h t = dateFromDay (localTime h t div msPerDay)"

text \<open>\<open>new Date(`${s}T00:00:00`)\<close>.\<close>

definition newDate :: "Host \<Rightarrow> jsstring \<Rightarrow> int option" where
  "newDate h s = dateParse h (s @ js ''T00:00:00'')"

text \<open>
  \<open>d.setDate(n)\<close>: the day \<open>n\<close> of the month of the local time of \<open>d\<close>, at the same
  time within the day; \<open>NaN\<close> for \<open>d\<close> or \<open>n\<close> gives an invalid date.
\<close>

definition setDate :: "Host \<Rightarrow> int option \<Rightarrow> int option \<Rightarrow> int option" where
  "setDate h d n =
     (case (d, n) of
        (Some t, Some dt) \<Rightarrow>
          let lt = localTime h t;
              day = makeDay (yearFromDay (lt div msPerDay)) (monthFromDay (lt div msPerDay)) dt
          in timeClip (utcTime h (day * msPerDay + lt mod msPerDay))
      | _ \<Rightarrow> None)"

text \<open>
  \<open>`${d.getFullYear()}-${mm}-${dd}`\<close> with both \<open>padStart(2, '0')\<close>; every getter
  of an invalid date is \<open>NaN\<close>.
\<close>

definition formatISO :: "Host \<Rightarrow> int option \<Rightarrow> jsstring" where
  "formatISO h d =
     (case d of
        None \<Rightarrow> js ''NaN-NaN-NaN''
      | Some t \<Rightarrow>
          showInt (getFullYear h t) @ js ''-'' @ padStart2 (showNat (nat (getMonth h t + 1)))
            @ js ''-'' @ padStart2 (showNat (nat (getDate h t))))"

definition addDaysISO :: "Host \<Rightarrow> jsstring \<Rightarrow> int \<Rightarrow> jsstring" where
  "addDaysISO h dateISO days =
     (let d = newDate h dateISO
      in formatISO h (setDate h d (map_option (\<lambda>x. getDate h x + days) d)))"

definition monthStartISO :: "Host \<Rightarrow> jsstring \<Rightarrow> jsstring" where
  "monthStartISO h dateISO =
     (case newDate h dateISO of
        None \<Rightarrow> js ''NaN-NaN-01''
      | Some t \<Rightarrow>
          showInt (getFullYear h t) @ js ''-'' @ padStart2 (showNat (nat (getMonth h t + 1)))
            @ js ''-01'')"




section \<open>Collections\<close>

text \<open>
  A \<open>Map\<close> is the list of its entries in insertion order; \<open>map.get\<close> is
  \<^const>\<open>map_of\<close>. \<open>map.set\<close> replaces the value of a key in place, or appends a new
  entry. \<open>new Map(entries)\<close> sets the entries one after the other.
\<close>

fun Map_set :: "('k \<times> 'v) list \<Rightarrow> 'k \<Rightarrow> 'v \<Rightarrow> ('k \<times> 'v) list" where
  "Map_set [] k v = [(k, v)]"
| "Map_set (e # es) k v = (if fst e = k then (k, v) # es else e # Map_set es k v)"

definition Map_new :: "('k \<times> 'v) list \<Rightarrow> ('k \<times> 'v) list" where
  "Map_new entries = fold (\<lambda>e m. Map_set m (fst e) (snd e)) entries []"

text \<open>\<open>v || 0\<close> on a number that may be undefined.\<close>

definition orZero :: "int option \<Rightarrow> int" where
  "orZero v = (case v of None \<Rightarrow> 0 | Some n \<Rightarrow> n)"

section \<open>CSV codec\<close>

text \<open>
  \<open>csvEscape\<close>: a field with a line feed (10), a carriage return (13), a comma (44) or
  a double quote (34) is wrapped in double quotes, every quote in it doubled.
\<close>

definition needsQuoting :: "nat \<Rightarrow> bool" where
  "needsQuoting c = (c = 10 \<or> c = 13 \<or> c = 44 \<or> c = 34)"

definition doubleQuotes :: "jsstring \<Rightarrow> jsstring" where
  "doubleQuotes s = concat (map (\<lambda>c. if c = 34 then [34, 34] else [c]) s)"

definition csvEscape :: "jsstring \<Rightarrow> jsstring" where
  "csvEscape s = (if list_ex needsQuoting s then [34] @ doubleQuotes s @ [34] else s)"

text \<open>\<open>cur.replace(/\r/g, '')\<close>.\<close>

definition removeCR :: "jsstring \<Rightarrow> jsstring" where
  "removeCR s = filter (\<lambda>c. c \<noteq> 13) s"

text \<open>
  The loop of \<open>parseCSVText\<close>, on the text that is left: \<open>rows\<close>, \<open>row\<close>,
  \<open>cur\<close> and \<open>inQuotes\<close> are the loop's variables. The look-ahead \<open>text[i + 1]\<close>
  is the head of the rest; \<open>i++; continue\<close> drops it. The last equation is the code
  after the loop, which pushes the open cell and the open row.
\<close>

fun csvLoop :: "jsstring \<Rightarrow> jsstring list list \<Rightarrow> jsstring list \<Rightarrow> jsstring \<Rightarrow> bool \<Rightarrow> jsstring list list" where
  "csvLoop (ch # rest) rws rw cur inQuotes =
     (if inQuotes then
        (if ch = 34 \<and> (case rest of [] \<Rightarrow> False | nxt # _ \<Rightarrow> nxt = 34)
         then csvLoop (tl rest) rws rw (cur @ [34]) True
         else if ch = 34 then csvLoop rest rws rw cur False
         else csvLoop rest rws rw (cur @ [ch]) True)
      else if ch = 34 then csvLoop rest rws rw cur True
      else if ch = 44 then csvLoop rest rws (rw @ [cur]) [] False
      else if ch = 10 then csvLoop rest (rws @ [rw @ [removeCR cur]]) [] [] False
      else csvLoop rest rws rw (cur @ [ch]) False)"
| "csvLoop [] rws rw cur inQuotes = rws @ [rw @ [removeCR cur]]"

definition parseCSVText :: "jsstring \<Rightarrow> jsstring list list" where
  "parseCSVText text =
     filter (\<lambda>r. list_ex (\<lambda>c. length c > 0) r)
       (map (\<lambda>r. map trim r) (csvLoop text [] [] [] False))"

text \<open>
  \<open>exportCSV\<close>, up to the text of the file (the download itself is an effect of the
  browser).
\<close>

definition typeString :: "TxType \<Rightarrow> jsstring" where
  "typeString ty = (case ty of Expense \<Rightarrow> js ''expense'' | Income \<Rightarrow> js ''income'')"

definition exportHeader :: "jsstring list" where
  "exportHeader =
     [js ''date'', js ''merchant'', js ''amount'', js ''type'', js ''category'', js ''account'',
      js ''note'']"

definition exportRow :: "Host \<Rightarrow> AppState \<Rightarrow> Transaction \<Rightarrow> jsstring list" where
  "exportRow h st t =
     (let catById = Map_new (map (\<lambda>c. (cat_id c, cat_name c)) (categories st));
          accById = Map_new (map (\<lambda>a. (acc_id a, acc_name a)) (accounts st))
      in [date t, merchant t, toFixed2 h (amountCents t), typeString (tx_type t),
          orEmpty (map_of catById (categoryId t)), orEmpty (map_of accById (accountId t)),
          orEmpty (tx_note t)])"

definition csvLine :: "jsstring list \<Rightarrow> jsstring" where
  "csvLine r = join [44] (map csvEscape r)"

definition csvText :: "jsstring list list \<Rightarrow> jsstring" where
  "csvText rs = join [10] (map csvLine rs)"

definition exportCSV :: "Host \<Rightarrow> AppState \<Rightarrow> jsstring" where
  "exportCSV h st =
     csvText (exportHeader #
       map (exportRow h st)
         (sortTx h (\<lambda>a b. if date a < date b then 1 else - 1) (transactions st)))"

section \<open>Classifier\<close>

text \<open>
  \<open>applySmartCategory\<close>: the loop over the rules. The text that is tested for being
  blank is \<open>r.contains.trim()\<close>; the text that is searched for is
  \<open>safeLower(r.contains)\<close>.
\<close>

fun applySmartCategory :: "Host \<Rightarrow> jsstring \<Rightarrow> Rule list \<Rightarrow> jsstring \<Rightarrow> jsstring" where
  "applySmartCategory h m [] fallbackCategoryId = fallbackCategoryId"
| "applySmartCategory h m (r # rs) fallbackCategoryId =
     (if trim (contains r) = [] then applySmartCategory h m rs fallbackCategoryId
      else if str_includes (safeLower h (Some m)) (safeLower h (Some (contains r)))
      then rule_categoryId r
      else applySmartCategory h m rs fallbackCategoryId)"

section \<open>Aggregation\<close>

subsection \<open>Totals\<close>

text \<open>The loop of \<open>totals\<close>: one step per transaction, on the pair of running sums.\<close>

definition totalsStep :: "Transaction \<Rightarrow> int \<times> int \<Rightarrow> int \<times> int" where
  "totalsStep t acc =
     (if tx_type t = Income then (addD (fst acc) (amountCents t), snd acc)
      else (fst acc, addD (snd acc) (amountCents t)))"

definition totals :: "Transaction list \<Rightarrow> Totals" where
  "totals filteredTx =
     (let acc = fold totalsStep filteredTx (0, 0);
          inc = fst acc;
          ex = snd acc;
          n = subD inc ex;
          rate = (if inc > 0 then Math_round (fl (fl (of_int n / of_int inc) * 100)) else 0)
      in \<lparr>income = inc, expense = ex, net = n, savingsRate = rate\<rparr>)"

subsection \<open>Grouping\<close>

text \<open>One pass of the loop of \<open>groupByDayNet\<close>.\<close>

definition dayStep :: "Transaction \<Rightarrow> (jsstring \<times> DayNet) list \<Rightarrow> (jsstring \<times> DayNet) list" where
  "dayStep t m =
     (let key = date t;
          existing = (case map_of m key of
                        None \<Rightarrow> \<lparr>d_date = key, netCents = 0, incomeCents = 0, expenseCents = 0\<rparr>
                      | Some e \<Rightarrow> e);
          updated = (if tx_type t = Income
                     then existing\<lparr>incomeCents := addD (incomeCents existing) (amountCents t),
                                   netCents := addD (netCents existing) (amountCents t)\<rparr>
                     else existing\<lparr>expenseCents := addD (expenseCents existing) (amountCents t),
                                   netCents := subD (netCents existing) (amountCents t)\<rparr>)
      in Map_set m key updated)"

definition groupByDayNet :: "Host \<Rightarrow> Transaction list \<Rightarrow> DayNet list" where
  "groupByDayNet h txs =
     sortDays h (\<lambda>a b. if d_date a < d_date b then - 1 else 1) (map snd (fold dayStep txs []))"

definition groupExpenseByCategory :: "Transaction list \<Rightarrow> (jsstring \<times> int) list" where
  "groupExpenseByCategory txs =
     fold (\<lambda>t m. if tx_type t \<noteq> Expense then m
                  else Map_set m (categoryId t)
                         (addD (orZero (map_of m (categoryId t))) (amountCents t)))
       txs []"

subsection \<open>Budget rows\<close>

definition budgetRow :: "(jsstring \<times> int) list \<Rightarrow> jsstring \<times> int \<Rightarrow> BudgetRow" where
  "budgetRow spentByCat b =
     (let spent = orZero (map_of spentByCat (fst b));
          rem = subD (snd b) spent
      in \<lparr>row_categoryId = fst b, budgetCents = snd b, spentCents = spent, remainingCents = rem\<rparr>)"

definition budgetStats :: "Host \<Rightarrow> AppState \<Rightarrow> DateRange \<Rightarrow> BudgetStats" where
  "budgetStats h st r =
     (let budgets = map (\<lambda>c. (cat_id c, orZero (monthlyBudgetCents c)))
                      (filter (\<lambda>c. orZero (monthlyBudgetCents c) > 0) (categories st));
          spentByCat = groupExpenseByCategory
                         (filter (\<lambda>t. dateInRange (date t) (range_min r) (range_max r))
                            (transactions st));
          rs = sortRows h (\<lambda>a b. subD (spentCents b) (spentCents a))
                 (map (budgetRow spentByCat) budgets);
          tb = foldl (\<lambda>s x. addD s (budgetCents x)) 0 rs;
          ts = foldl (\<lambda>s x. addD s (spentCents x)) 0 rs
      in \<lparr>rows = rs, totalBudget = tb, totalSpent = ts, remaining = subD tb ts\<rparr>)"

subsection \<open>Cashflow series\<close>

text \<open>\<open>daily.map\<close> with the captured variable \<open>running\<close>.\<close>

fun runningMap :: "int \<Rightarrow> DayNet list \<Rightarrow> CashflowPoint list" where
  "runningMap running [] = []"
| "runningMap running (d # ds) =
     \<lparr>p_date = drop 5 (d_date d), runningCents = addD running (netCents d),
      p_incomeCents = incomeCents d, p_expenseCents = expenseCents d\<rparr>
     # runningMap (addD running (netCents d)) ds"

definition cashflow :: "Host \<Rightarrow> Transaction list \<Rightarrow> CashflowPoint list" where
  "cashflow h filteredTx = runningMap 0 (groupByDayNet h (rev filteredTx))"

section \<open>State and its mutations\<close>

text \<open>
  The state of the component that the handlers below read or write: the application
  state and the fields of the two dialogs.
\<close>

record Dashboard =
  state :: AppState
  txModalOpen :: bool
  importOpen :: bool
  txDate :: jsstring
  txMerchant :: jsstring
  txAmount :: jsstring
  txType :: TxType
  txCategoryId :: jsstring
  txAccountId :: jsstring
  txNote :: jsstring
  importText :: jsstring

text \<open>
  The default dataset; \<open>today\<close> is \<open>todayISO()\<close> when the module is loaded. The
  emoji are the code units of the literals as the source file has them.
\<close>

definition mkTx ::
  "jsstring \<Rightarrow> jsstring \<Rightarrow> jsstring \<Rightarrow> int \<Rightarrow> TxType \<Rightarrow> jsstring \<Rightarrow> jsstring \<Rightarrow> jsstring option \<Rightarrow> Transaction" where
  "mkTx i d m a ty c acc n =
     \<lparr>tx_id = i, date = d, merchant = m, amountCents = a, tx_type = ty, categoryId = c,
      accountId = acc, tx_note = n\<rparr>"

definition mkCat :: "jsstring \<Rightarrow> jsstring \<Rightarrow> jsstring \<Rightarrow> int option \<Rightarrow> Category" where
  "mkCat i n e b = \<lparr>cat_id = i, cat_name = n, emoji = Some e, monthlyBudgetCents = b\<rparr>"

definition defaultTransactions :: "Host \<Rightarrow> jsstring \<Rightarrow> Transaction list" where
  "defaultTransactions h today =
     [mkTx (js ''t1'') (addDaysISO h today (- 2)) (js ''Loblaws'') 8423 Expense (js ''cat_gro'') (js ''acc_cc'')
        (Some (js ''Weekly groceries'')),
      mkTx (js ''t2'') (addDaysISO h today (- 4)) (js ''Spotify'') 1199 Expense (js ''cat_subs'') (js ''acc_cc'') None,
      mkTx (js ''t3'') (addDaysISO h today (- 6)) (js ''Ramen'') 2487 Expense (js ''cat_eat'') (js ''acc_cc'') None,
      mkTx (js ''t4'') (addDaysISO h today (- 10)) (js ''Paycheque'') 240000 Income (js ''cat_income'') (js ''acc_cheq'') None,
      mkTx (js ''t5'') (monthStartISO h today) (js ''Rent'') 180000 Expense (js ''cat_rent'') (js ''acc_cheq'') None,
      mkTx (js ''t6'') (js ''2025-09-08'') (js ''Farmers Market'') 5600 Expense (js ''cat_gro'') (js ''acc_cc'') None,
      mkTx (js ''t7'') (js ''2025-09-15'') (js ''Commuter Pass'') 12000 Expense (js ''cat_trans'') (js ''acc_cc'') None,
      mkTx (js ''t8'') (js ''2025-09-30'') (js ''Paycheque'') 240000 Income (js ''cat_income'') (js ''acc_cheq'') None,
      mkTx (js ''t9'') (js ''2025-10-10'') (js ''Dentist'') 32000 Expense (js ''cat_health'') (js ''acc_cheq'') None,
      mkTx (js ''t10'') (js ''2025-10-22'') (js ''Meal Prep'') 18500 Expense (js ''cat_gro'') (js ''acc_cc'') None,
      mkTx (js ''t11'') (js ''2025-10-31'') (js ''Paycheque'') 240000 Income (js ''cat_income'') (js ''acc_cheq'') None,
      mkTx (js ''t12'') (js ''2025-11-05'') (js ''Holiday Flights'') 65000 Expense (js ''cat_other'') (js ''acc_cc'')
        (Some (js ''Family travel'')),
      mkTx (js ''t13'') (js ''2025-11-18'') (js ''Grocery Stock-up'') 42000 Expense (js ''cat_gro'') (js ''acc_cc'') None,
      mkTx (js ''t14'') (js ''2025-11-28'') (js ''Black Friday Electronics'') 98000 Expense (js ''cat_other'') (js ''acc_cc'') None,
      mkTx (js ''t15'') (js ''2025-11-30'') (js ''Paycheque'') 240000 Income (js ''cat_income'') (js ''acc_cheq'') None,
      mkTx (js ''t16'') (js ''2025-12-03'') (js ''Gifts & Decor'') 75000 Expense (js ''cat_other'') (js ''acc_cc'') None,
      mkTx (js ''t17'') (js ''2025-12-12'') (js ''Dining Out'') 28000 Expense (js ''cat_eat'') (js ''acc_cc'') None,
      mkTx (js ''t18'') (js ''2025-12-20'') (js ''Charity Donation'') 30000 Expense (js ''cat_other'') (js ''acc_cheq'') None,
      mkTx (js ''t19'') (js ''2025-12-31'') (js ''Paycheque'') 240000 Income (js ''cat_income'') (js ''acc_cheq'') None]"

definition defaultState :: "Host \<Rightarrow> jsstring \<Rightarrow> AppState" where
  "defaultState h today =
     \<lparr>version = 1,
      categories =
        [mkCat (js ''cat_gro'') (js ''Groceries'') [63743, 252, 245, 237] (Some 60000),
         mkCat (js ''cat_rent'') (js ''Rent'') [63743, 252, 232, 8224] (Some 180000),
         mkCat (js ''cat_eat'') (js ''Eating Out'') [63743, 252, 231, 250] (Some 30000),
         mkCat (js ''cat_trans'') (js ''Transport'') [63743, 252, 246, 225] (Some 20000),
         mkCat (js ''cat_subs'') (js ''Subscriptions'') [63743, 252, 236, 8747] (Some 15000),
         mkCat (js ''cat_health'') (js ''Health'') [63743, 252, 237, 228] (Some 15000),
         mkCat (js ''cat_other'') (js ''Other'') [63743, 252, 223, 230] (Some 25000),
         mkCat (js ''cat_income'') (js ''Income'') [63743, 252, 237, 8734] None],
      accounts =
        [\<lparr>acc_id = (js ''acc_cheq''), acc_name = (js ''Chequing''), acc_type = Chequing\<rparr>,
         \<lparr>acc_id = (js ''acc_cc''), acc_name = (js ''Credit Card''), acc_type = Credit\<rparr>,
         \<lparr>acc_id = (js ''acc_save''), acc_name = (js ''Savings''), acc_type = Savings\<rparr>],
      rules =
        [\<lparr>rule_id = (js ''r1''), contains = (js ''uber''), rule_categoryId = (js ''cat_trans'')\<rparr>,
         \<lparr>rule_id = (js ''r2''), contains = (js ''loblaws''), rule_categoryId = (js ''cat_gro'')\<rparr>,
         \<lparr>rule_id = (js ''r3''), contains = (js ''spotify''), rule_categoryId = (js ''cat_subs'')\<rparr>],
      transactions = defaultTransactions h today,
      settings = \<lparr>currency = CAD, hideCents = False, smartCategorize = True\<rparr>\<rparr>"

text \<open>The component as it is first rendered on the default dataset.\<close>

definition initialDashboard :: "Host \<Rightarrow> jsstring \<Rightarrow> Dashboard" where
  "initialDashboard h today =
     \<lparr>state = defaultState h today, txModalOpen = False, importOpen = False, txDate = today,
      txMerchant = [], txAmount = [], txType = Expense, txCategoryId = (js ''cat_other''),
      txAccountId = (js ''acc_cc''), txNote = [], importText = []\<rparr>"

definition resetState :: "Host \<Rightarrow> jsstring \<Rightarrow> Dashboard \<Rightarrow> Dashboard" where
  "resetState h today d = d\<lparr>state := defaultState h today\<rparr>"

text \<open>
  \<open>addTransaction\<close>: \<open>newId\<close> is the value of \<open>uid('tx')\<close>, \<open>now\<close> the value of
  \<open>todayISO()\<close> when the form is cleared.
\<close>

definition addTransaction :: "jsstring \<Rightarrow> jsstring \<Rightarrow> Dashboard \<Rightarrow> Dashboard" where
  "addTransaction newId now d =
     (let cents = \<bar>parseMoneyToCents (txAmount d)\<bar>
      in if trim (txMerchant d) = [] then d
         else if cents \<le> 0 then d
         else
           let newTx =
                 \<lparr>tx_id = newId, date = txDate d, merchant = trim (txMerchant d),
                  amountCents = cents, tx_type = txType d,
                  categoryId = (if txType d = Income then (js ''cat_income'') else txCategoryId d),
                  accountId = txAccountId d,
                  tx_note = (if trim (txNote d) = [] then None else Some (trim (txNote d)))\<rparr>
           in d\<lparr>state := (state d)\<lparr>transactions := newTx # transactions (state d)\<rparr>,
                txDate := now, txMerchant := [], txAmount := [], txType := Expense,
                txCategoryId := (js ''cat_other''), txAccountId := (js ''acc_cc''), txNote := [],
                txModalOpen := False\<rparr>)"

definition deleteTransaction :: "jsstring \<Rightarrow> Dashboard \<Rightarrow> Dashboard" where
  "deleteTransaction i d =
     d\<lparr>state := (state d)\<lparr>transactions := filter (\<lambda>t. tx_id t \<noteq> i) (transactions (state d))\<rparr>\<rparr>"

definition upsertCategoryBudget :: "jsstring \<Rightarrow> int \<Rightarrow> Dashboard \<Rightarrow> Dashboard" where
  "upsertCategoryBudget i cents d =
     d\<lparr>state := (state d)\<lparr>categories :=
          map (\<lambda>c. if cat_id c = i then c\<lparr>monthlyBudgetCents := Some cents\<rparr> else c)
            (categories (state d))\<rparr>\<rparr>"

definition addRule :: "jsstring \<Rightarrow> jsstring \<Rightarrow> jsstring \<Rightarrow> Dashboard \<Rightarrow> Dashboard" where
  "addRule newId txt catId d =
     (let trimmed = trim txt
      in if trimmed = [] then d
         else d\<lparr>state := (state d)\<lparr>rules :=
                  \<lparr>rule_id = newId, contains = trimmed, rule_categoryId = catId\<rparr>
                  # rules (state d)\<rparr>\<rparr>)"

definition deleteRule :: "jsstring \<Rightarrow> Dashboard \<Rightarrow> Dashboard" where
  "deleteRule i d =
     d\<lparr>state := (state d)\<lparr>rules := filter (\<lambda>r. rule_id r \<noteq> i) (rules (state d))\<rparr>\<rparr>"

definition updateSettings :: "(Settings \<Rightarrow> Settings) \<Rightarrow> Dashboard \<Rightarrow> Dashboard" where
  "updateSettings f d = d\<lparr>state := (state d)\<lparr>settings := f (settings (state d))\<rparr>\<rparr>"

subsection \<open>Import\<close>

record ImportColumns =
  dateIdx :: "nat option"
  merchantIdx :: "nat option"
  amountIdx :: "nat option"
  typeIdx :: "nat option"
  categoryIdx :: "nat option"
  accountIdx :: "nat option"
  noteIdx :: "nat option"

text \<open>\<open>idx >= 0 ? r[idx] : ''\<close>.\<close>

definition cellOrEmpty :: "jsstring list \<Rightarrow> nat option \<Rightarrow> jsstring option" where
  "cellOrEmpty r i = (case i of None \<Rightarrow> Some [] | Some k \<Rightarrow> cell r (Some k))"

text \<open>\<open>map.get(key) || dflt\<close> on a map of strings.\<close>

definition getOr :: "(jsstring \<times> jsstring) list \<Rightarrow> jsstring \<Rightarrow> jsstring \<Rightarrow> jsstring" where
  "getOr m key dflt = (case map_of m key of None \<Rightarrow> dflt | Some v \<Rightarrow> if v = [] then dflt else v)"

text \<open>
  The body of the loop of \<open>importFromText\<close> for one row: \<open>None\<close> is \<open>continue\<close>,
  \<open>Some t\<close> is \<open>next.push(t)\<close>. \<open>newId\<close> is the value of \<open>uid('tx')\<close>.
\<close>

definition importRow ::
  "Host \<Rightarrow> AppState \<Rightarrow> ImportColumns \<Rightarrow> jsstring \<Rightarrow> jsstring list \<Rightarrow> Transaction option" where
  "importRow h st ix newId r =
     (let dateV = take 10 (orEmpty (cell r (dateIdx ix)));
          merchantV = orEmpty (cell r (merchantIdx ix));
          amount = orEmpty (cell r (amountIdx ix));
          ty = (if orEmpty (cell r (typeIdx ix)) = [] then (js ''expense'')
                else orEmpty (cell r (typeIdx ix)));
          categoryNameVal = cellOrEmpty r (categoryIdx ix);
          accountNameVal = cellOrEmpty r (accountIdx ix);
          noteV = cellOrEmpty r (noteIdx ix);
          catByName = Map_new (map (\<lambda>c. (safeLower h (Some (cat_name c)), cat_id c)) (categories st));
          accByName = Map_new (map (\<lambda>a. (safeLower h (Some (acc_name a)), acc_id a)) (accounts st))
      in if dateV = [] \<or> merchantV = [] \<or> amount = [] then None
         else
           let cents = \<bar>parseMoneyToCents amount\<bar>
           in if cents \<le> 0 then None
              else
                let resolvedAccountId = getOr accByName (safeLower h accountNameVal) (js ''acc_cc'');
                    resolvedCategoryId =
                      (if ty = (js ''income'') then (js ''cat_income'')
                       else if orEmpty categoryNameVal \<noteq> []
                       then getOr catByName (safeLower h categoryNameVal) (js ''cat_other'')
                       else if smartCategorize (settings st)
                       then applySmartCategory h merchantV (rules st) (js ''cat_other'')
                       else (js ''cat_other''))
                in Some \<lparr>tx_id = newId, date = dateV, merchant = merchantV, amountCents = cents,
                         tx_type = (if ty = (js ''income'') then Income else Expense),
                         categoryId = resolvedCategoryId, accountId = resolvedAccountId,
                         tx_note = (if orEmpty noteV = [] then None else noteV)\<rparr>)"

text \<open>
  The loop over the data rows; \<open>acc\<close> is the array \<open>next\<close>. \<open>uid k\<close> is the value of
  the call of \<open>uid('tx')\<close> after \<open>k\<close> earlier calls in this import.
\<close>

fun importLoop ::
  "Host \<Rightarrow> AppState \<Rightarrow> ImportColumns \<Rightarrow> (nat \<Rightarrow> jsstring) \<Rightarrow> jsstring list list \<Rightarrow> Transaction list
    \<Rightarrow> Transaction list" where
  "importLoop h st ix uid [] acc = acc"
| "importLoop h st ix uid (r # rs) acc =
     (case importRow h st ix (uid (length acc)) r of
        None \<Rightarrow> importLoop h st ix uid rs acc
      | Some t \<Rightarrow> importLoop h st ix uid rs (acc @ [t]))"

definition importColumns :: "Host \<Rightarrow> jsstring list \<Rightarrow> ImportColumns" where
  "importColumns h header0 =
     (let header = map (\<lambda>c. safeLower h (Some c)) header0
      in \<lparr>dateIdx = indexOf header (js ''date''), merchantIdx = indexOf header (js ''merchant''),
          amountIdx = indexOf header (js ''amount''), typeIdx = indexOf header (js ''type''),
          categoryIdx = indexOf header (js ''category''), accountIdx = indexOf header (js ''account''),
          noteIdx = indexOf header (js ''note'')\<rparr>)"

definition importFromText :: "Host \<Rightarrow> (nat \<Rightarrow> jsstring) \<Rightarrow> Dashboard \<Rightarrow> Dashboard" where
  "importFromText h uid d =
     (let rs = parseCSVText (importText d)
      in if length rs < 2 then d
         else
           let ix = importColumns h (hd rs)
           in if dateIdx ix = None \<or> merchantIdx ix = None \<or> amountIdx ix = None then d
              else
                let nxt = importLoop h (state d) ix uid (tl rs) []
                in if length nxt = 0 then d
                   else d\<lparr>state := (state d)\<lparr>transactions := nxt @ transactions (state d)\<rparr>,
                          importText := [], importOpen := False\<rparr>)"

subsection \<open>The events of the component\<close>

text \<open>
  Every way the component changes its state: the handlers above, the switches of the
  settings, and the edits of the form fields (the suggestion of a category while the
  merchant is typed is one of the edits of \<open>txCategoryId\<close>).
\<close>

datatype Event =
    AddTransaction jsstring jsstring
  | DeleteTransaction jsstring
  | UpsertCategoryBudget jsstring int
  | AddRule jsstring jsstring jsstring
  | DeleteRule jsstring
  | ImportFromText "nat \<Rightarrow> jsstring"
  | ResetState
  | SetSmartCategorize bool
  | SetCurrency Currency
  | SetHideCents bool
  | SetTxModalOpen bool
  | SetImportOpen bool
  | SetTxDate jsstring
  | SetTxMerchant jsstring
  | SetTxAmount jsstring
  | SetTxType TxType
  | SetTxCategoryId jsstring
  | SetTxAccountId jsstring
  | SetTxNote jsstring
  | SetImportText jsstring

fun handle :: "Host \<Rightarrow> jsstring \<Rightarrow> Event \<Rightarrow> Dashboard \<Rightarrow> Dashboard" where
  "handle h today (AddTransaction newId now) d = addTransaction newId now d"
| "handle h today (DeleteTransaction i) d = deleteTransaction i d"
| "handle h today (UpsertCategoryBudget i cents) d = upsertCategoryBudget i cents d"
| "handle h today (AddRule newId txt catId) d = addRule newId txt catId d"
| "handle h today (DeleteRule i) d = deleteRule i d"
| "handle h today (ImportFromText uid) d = importFromText h uid d"
| "handle h today ResetState d = resetState h today d"
| "handle h today (SetSmartCategorize v) d = updateSettings (\<lambda>s. s\<lparr>smartCategorize := v\<rparr>) d"
| "handle h today (SetCurrency v) d = updateSettings (\<lambda>s. s\<lparr>currency := v\<rparr>) d"
| "handle h today (SetHideCents v) d = updateSettings (\<lambda>s. s\<lparr>hideCents := v\<rparr>) d"
| "handle h today (SetTxModalOpen v) d = d\<lparr>txModalOpen := v\<rparr>"
| "handle h today (SetImportOpen v) d = d\<lparr>importOpen := v\<rparr>"
| "handle h today (SetTxDate v) d = d\<lparr>txDate := v\<rparr>"
| "handle h today (SetTxMerchant v) d = d\<lparr>txMerchant := v\<rparr>"
| "handle h today (SetTxAmount v) d = d\<lparr>txAmount := v\<rparr>"
| "handle h today (SetTxType v) d = d\<lparr>txType := v\<rparr>"
| "handle h today (SetTxCategoryId v) d = d\<lparr>txCategoryId := v\<rparr>"
| "handle h today (SetTxAccountId v) d = d\<lparr>txAccountId := v\<rparr>"
| "handle h today (SetTxNote v) d = d\<lparr>txNote := v\<rparr>"
| "handle h today (SetImportText v) d = d\<lparr>importText := v\<rparr>"

text \<open>The states the component reaches from the default dataset.\<close>

inductive reachable :: "Host \<Rightarrow> jsstring \<Rightarrow> Dashboard \<Rightarrow> bool"
  for h :: Host and today :: jsstring where
  reach_init: "reachable h today (initialDashboard h today)"
| reach_step: "reachable h today d \<Longrightarrow> reachable h today (handle h today e d)"

section \<open>Hosts\<close>

subsection \<open>What the properties need of the host\<close>

text \<open>
  \<open>Array.prototype.sort\<close>. A comparator is consistent on a set of values when it
  orders them as a total preorder; ECMAScript then prescribes that the result is a
  permutation of the array in which no element is followed by one that the comparator
  puts before it.
\<close>

definition consistentOn :: "'a set \<Rightarrow> ('a \<Rightarrow> 'a \<Rightarrow> int) \<Rightarrow> bool" where
  "consistentOn S cmp =
     ((\<forall>a\<in>S. cmp a a = 0)
      \<and> (\<forall>a\<in>S. \<forall>b\<in>S. (cmp a b < 0) = (0 < cmp b a))
      \<and> (\<forall>a\<in>S. \<forall>b\<in>S. \<forall>c\<in>S. cmp a b \<le> 0 \<and> cmp b c \<le> 0 \<longrightarrow> cmp a c \<le> 0))"

definition sortsConsistent :: "(('a \<Rightarrow> 'a \<Rightarrow> int) \<Rightarrow> 'a list \<Rightarrow> 'a list) \<Rightarrow> bool" where
  "sortsConsistent srt =
     (\<forall>cmp xs. consistentOn (set xs) cmp \<longrightarrow>
        mset (srt cmp xs) = mset xs \<and> sorted_wrt (\<lambda>a b. cmp a b \<le> 0) (srt cmp xs))"

text \<open>
  The comparators of \<open>groupByDayNet\<close> and \<open>exportCSV\<close> never return 0, so they
  are not consistent and ECMAScript leaves the order of the result to the
  implementation. An implementation that compares only elements at different places
  of the array puts an array of different elements, which the comparator orders
  strictly and totally, in that order; this is what \<open>sortsStrict\<close> asks.
  \<open>keepsLength\<close> asks that the result has as many elements as the array.
\<close>

definition strictOn :: "'a set \<Rightarrow> ('a \<Rightarrow> 'a \<Rightarrow> int) \<Rightarrow> bool" where
  "strictOn S cmp =
     ((\<forall>a\<in>S. \<forall>b\<in>S. a \<noteq> b \<longrightarrow> cmp a b \<noteq> 0 \<and> (cmp a b < 0) = (0 < cmp b a))
      \<and> (\<forall>a\<in>S. \<forall>b\<in>S. \<forall>c\<in>S. a \<noteq> b \<and> b \<noteq> c \<and> a \<noteq> c \<and> cmp a b < 0 \<and> cmp b c < 0
            \<longrightarrow> cmp a c < 0))"

definition sortsStrict :: "(('a \<Rightarrow> 'a \<Rightarrow> int) \<Rightarrow> 'a list \<Rightarrow> 'a list) \<Rightarrow> bool" where
  "sortsStrict srt =
     (\<forall>cmp xs. distinct xs \<and> strictOn (set xs) cmp \<longrightarrow>
        mset (srt cmp xs) = mset xs \<and> sorted_wrt (\<lambda>a b. cmp a b < 0) (srt cmp xs))"

definition keepsLength :: "(('a \<Rightarrow> 'a \<Rightarrow> int) \<Rightarrow> 'a list \<Rightarrow> 'a list) \<Rightarrow> bool" where
  "keepsLength srt = (\<forall>cmp xs. length (srt cmp xs) = length xs)"

subsection \<open>Sample hosts\<close>











section \<open>Example inputs\<close>

text \<open>The inputs of the examples that follow the theorems.\<close>

definition sampleTx :: "jsstring \<Rightarrow> jsstring \<Rightarrow> int \<Rightarrow> TxType \<Rightarrow> jsstring \<Rightarrow> Transaction" where
  "sampleTx i d a ty c =
     \<lparr>tx_id = i, date = d, merchant = js ''Shop'', amountCents = a, tx_type = ty, categoryId = c,
      accountId = js ''acc_cc'', tx_note = None\<rparr>"

text \<open>Income 40 and expense 17: the rate is 57.5 percent exactly.\<close>

definition halfPercent :: "Transaction list" where
  "halfPercent =
     [sampleTx (js ''t1'') (js ''2025-03-01'') 40 Income (js ''cat_income''),
      sampleTx (js ''t2'') (js ''2025-03-02'') 17 Expense (js ''cat_eat'')]"

definition expenseOnly :: "Transaction list" where
  "expenseOnly = [sampleTx (js ''t1'') (js ''2025-03-02'') 17 Expense (js ''cat_eat'')]"



section \<open>Properties\<close>

subsection \<open>Doubles\<close>

lemma powi_pos: "0 < (2::rat) powi b"
  by (simp add: power_int_def)

lemma powi_nat: "0 \<le> k \<Longrightarrow> (2::rat) powi k = 2 ^ nat k"
  by (simp add: power_int_def)

lemma powi_mono: "a \<le> b \<Longrightarrow> (2::rat) powi a \<le> 2 powi b"
  by (rule power_int_increasing) simp_all

lemma powi_add: "(2::rat) powi (a + b) = 2 powi a * 2 powi b"
  by (rule power_int_add) simp

lemma powi_strict: "a < b \<Longrightarrow> (2::rat) powi a < 2 powi b"
  by (rule power_int_strict_increasing) simp_all

lemma ilog2_bounds:
  assumes "0 < x"
  shows "2 powi (ilog2 x) \<le> x" and "x < 2 powi (ilog2 x + 1)"
proof -
  obtain p q where pq: "quotient_of x = (p, q)"
    by (cases "quotient_of x")
  have q: "0 < q"
    using quotient_of_denom_pos [OF pq] .
  have x: "x = of_int p / of_int q"
    using quotient_of_div [OF pq] .
  have p: "0 < p"
    using assms q unfolding x by (simp add: zero_less_divide_iff)
  define bp where "bp = bitlen p"
  define bq where "bq = bitlen q"
  have bp: "1 \<le> bp" and bq: "1 \<le> bq"
    using p q bitlen_eq_zero_iff [of p] bitlen_eq_zero_iff [of q] bitlen_nonneg [of p]
      bitlen_nonneg [of q]
    unfolding bp_def bq_def by linarith+
  have p1: "2 ^ nat (bp - 1) \<le> p" and p2: "p < 2 ^ nat bp"
    using bitlen_bounds [OF p] unfolding bp_def by simp_all
  have q1: "2 ^ nat (bq - 1) \<le> q" and q2: "q < 2 ^ nat bq"
    using bitlen_bounds [OF q] unfolding bq_def by simp_all
  have rp1: "(2::rat) powi (bp - 1) \<le> of_int p"
  proof -
    have "(of_int (2 ^ nat (bp - 1)) :: rat) \<le> of_int p"
      using p1 by (simp only: of_int_le_iff)
    then show ?thesis
      using bp by (simp add: powi_nat)
  qed
  have rp2: "(of_int p :: rat) < 2 powi bp"
  proof -
    have "(of_int p :: rat) < of_int (2 ^ nat bp)"
      using p2 by (simp only: of_int_less_iff)
    then show ?thesis
      using bp by (simp add: powi_nat)
  qed
  have rq1: "(2::rat) powi (bq - 1) \<le> of_int q"
  proof -
    have "(of_int (2 ^ nat (bq - 1)) :: rat) \<le> of_int q"
      using q1 by (simp only: of_int_le_iff)
    then show ?thesis
      using bq by (simp add: powi_nat)
  qed
  have rq2: "(of_int q :: rat) < 2 powi bq"
  proof -
    have "(of_int q :: rat) < of_int (2 ^ nat bq)"
      using q2 by (simp only: of_int_less_iff)
    then show ?thesis
      using bq by (simp add: powi_nat)
  qed
  have qpos: "(0::rat) < of_int q"
    using q by simp
  have upper: "x < 2 powi (bp - bq + 1)"
  proof -
    have "2 powi (bp - bq + 1) * of_int q \<ge> (2::rat) powi (bp - bq + 1) * 2 powi (bq - 1)"
      using rq1 powi_pos [of "bp - bq + 1"] by (simp add: mult_left_mono)
    moreover have "(2::rat) powi (bp - bq + 1) * 2 powi (bq - 1) = 2 powi bp"
      using powi_add [of "bp - bq + 1" "bq - 1"] by simp
    ultimately have "of_int p < (2::rat) powi (bp - bq + 1) * of_int q"
      using rp2 by linarith
    then show ?thesis
      unfolding x using qpos by (simp add: pos_divide_less_eq)
  qed
  have lower: "2 powi (bp - bq - 1) \<le> x"
  proof -
    have "(2::rat) powi (bp - bq - 1) * of_int q \<le> 2 powi (bp - bq - 1) * 2 powi bq"
      using rq2 powi_pos [of "bp - bq - 1"] by (simp add: mult_left_mono)
    moreover have "(2::rat) powi (bp - bq - 1) * 2 powi bq = 2 powi (bp - 1)"
      using powi_add [of "bp - bq - 1" bq] by simp
    ultimately have "(2::rat) powi (bp - bq - 1) * of_int q \<le> of_int p"
      using rp1 by linarith
    then show ?thesis
      unfolding x using qpos by (simp add: pos_le_divide_eq)
  qed
  have il: "ilog2 x = (if 2 powi (bp - bq) \<le> x then bp - bq else bp - bq - 1)"
    unfolding ilog2_def pq bp_def bq_def by (simp add: Let_def)
  show "2 powi (ilog2 x) \<le> x"
    using lower unfolding il by simp
  show "x < 2 powi (ilog2 x + 1)"
    using upper unfolding il by (simp add: not_le)
qed

lemma roundHalfEven_int: "roundHalfEven (of_int k) = k"
  by (simp add: roundHalfEven_def)

lemma roundHalfEven_near: "\<bar>of_int (roundHalfEven y) - y\<bar> \<le> 1 / 2"
proof -
  define f where "f = \<lfloor>y\<rfloor>"
  have b: "of_int f \<le> y" "y < of_int f + 1"
    unfolding f_def by linarith+
  have r: "roundHalfEven y = f \<and> y - of_int f \<le> 1 / 2
           \<or> roundHalfEven y = f + 1 \<and> 1 / 2 \<le> y - of_int f"
    unfolding roundHalfEven_def Let_def f_def [symmetric] by auto
  then show ?thesis
  proof
    assume "roundHalfEven y = f \<and> y - of_int f \<le> 1 / 2"
    then show ?thesis
      using b by simp
  next
    assume "roundHalfEven y = f + 1 \<and> 1 / 2 \<le> y - of_int f"
    then show ?thesis
      using b by simp
  qed
qed

lemma fl_exact:
  assumes "\<bar>k\<bar> < 2 ^ 53"
  shows "fl (of_int k) = of_int k"
proof (cases "k = 0")
  case True
  then show ?thesis
    by (simp add: fl_def)
next
  case False
  define e where "e = ilog2 \<bar>of_int k\<bar>"
  have pos: "(0::rat) < \<bar>of_int k\<bar>"
    using False by simp
  have "2 powi e \<le> \<bar>of_int k :: rat\<bar>"
    unfolding e_def by (rule ilog2_bounds(1) [OF pos])
  moreover have "\<bar>of_int k :: rat\<bar> < 2 powi 53"
  proof -
    have "(of_int \<bar>k\<bar> :: rat) < of_int (2 ^ 53)"
      using assms by (simp only: of_int_less_iff)
    then show ?thesis
      by simp
  qed
  ultimately have "(2::rat) powi e < 2 powi 53"
    by linarith
  then have e: "e \<le> 52"
    using powi_mono [of 53 e] by (cases "e \<le> 52") (simp_all add: not_le)
  define n where "n = nat (52 - e)"
  have u: "(2::rat) powi (e - 52) = 1 / 2 ^ n"
  proof -
    have "(2::rat) powi (e - 52) = 2 powi (- (52 - e))"
      by simp
    also have "\<dots> = 1 / 2 powi (52 - e)"
      by (rule power_int_minus_divide)
    also have "\<dots> = 1 / 2 ^ n"
      using e unfolding n_def by (simp add: powi_nat)
    finally show ?thesis .
  qed
  have "of_int k / (1 / 2 ^ n) = (of_int (k * 2 ^ n) :: rat)"
    by simp
  then have "roundHalfEven (of_int k / (1 / 2 ^ n)) = k * 2 ^ n"
    by (simp only: roundHalfEven_int)
  then have "fl (of_int k) = of_int (k * 2 ^ n) * (1 / 2 ^ n)"
    using False unfolding fl_def Let_def e_def [symmetric] u by simp
  then show ?thesis
    by simp
qed

lemma fl_error: "\<bar>fl x - x\<bar> \<le> \<bar>x\<bar> / 2 ^ 53"
proof (cases "x = 0")
  case True
  then show ?thesis
    by (simp add: fl_def)
next
  case False
  define e where "e = ilog2 \<bar>x\<bar>"
  define u :: rat where "u = 2 powi (e - 52)"
  have pos: "0 < \<bar>x\<bar>"
    using False by simp
  have le: "2 powi e \<le> \<bar>x\<bar>"
    unfolding e_def by (rule ilog2_bounds(1) [OF pos])
  have upos: "0 < u"
    unfolding u_def by (rule powi_pos)
  have fl: "fl x = of_int (roundHalfEven (x / u)) * u"
    using False unfolding fl_def Let_def e_def [symmetric] u_def by simp
  have "fl x - x = (of_int (roundHalfEven (x / u)) - x / u) * u"
    unfolding fl using upos by (simp add: algebra_simps)
  then have "\<bar>fl x - x\<bar> = \<bar>of_int (roundHalfEven (x / u)) - x / u\<bar> * u"
    using upos by (simp add: abs_mult)
  also have "\<dots> \<le> 1 / 2 * u"
    using roundHalfEven_near [of "x / u"] upos by (simp add: mult_right_mono)
  also have "1 / 2 * u = 2 powi e / 2 ^ 53"
  proof -
    have "(2::rat) powi e = 2 powi (e - 52) * 2 powi 52"
      using powi_add [of "e - 52" 52] by simp
    then show ?thesis
      unfolding u_def by simp
  qed
  also have "\<dots> \<le> \<bar>x\<bar> / 2 ^ 53"
    using le by (simp add: divide_right_mono)
  finally show ?thesis .
qed

lemma addD_exact: "\<bar>a + b\<bar> < 2 ^ 53 \<Longrightarrow> addD a b = a + b"
  using fl_exact [of "a + b"] by (simp add: addD_def)

lemma subD_exact: "\<bar>a - b\<bar> < 2 ^ 53 \<Longrightarrow> subD a b = a - b"
  using fl_exact [of "a - b"] by (simp add: subD_def)

subsection \<open>Totals\<close>

lemma fold_totalsStep:
  "\<bar>a\<bar> + \<bar>b\<bar> + (\<Sum>t\<leftarrow>txs. \<bar>amountCents t\<bar>) < 2 ^ 53 \<Longrightarrow>
   fold totalsStep txs (a, b) =
     (a + (\<Sum>t\<leftarrow>filter (\<lambda>t. tx_type t = Income) txs. amountCents t),
      b + (\<Sum>t\<leftarrow>filter (\<lambda>t. tx_type t \<noteq> Income) txs. amountCents t))"
proof (induction txs arbitrary: a b)
  case Nil
  then show ?case
    by simp
next
  case (Cons t txs)
  have nn: "0 \<le> (\<Sum>t\<leftarrow>txs. \<bar>amountCents t\<bar>)"
    by (rule sum_list_nonneg) auto
  show ?case
  proof (cases "tx_type t = Income")
    case True
    have "\<bar>a + amountCents t\<bar> < 2 ^ 53"
      using Cons.prems nn by simp
    then have st: "totalsStep t (a, b) = (a + amountCents t, b)"
      using True by (simp add: totalsStep_def addD_exact)
    have "\<bar>a + amountCents t\<bar> + \<bar>b\<bar> + (\<Sum>t\<leftarrow>txs. \<bar>amountCents t\<bar>) < 2 ^ 53"
      using Cons.prems by simp
    from Cons.IH [OF this] show ?thesis
      using True st by simp
  next
    case False
    have "\<bar>b + amountCents t\<bar> < 2 ^ 53"
      using Cons.prems nn by simp
    then have st: "totalsStep t (a, b) = (a, b + amountCents t)"
      using False by (simp add: totalsStep_def addD_exact)
    have "\<bar>a\<bar> + \<bar>b + amountCents t\<bar> + (\<Sum>t\<leftarrow>txs. \<bar>amountCents t\<bar>) < 2 ^ 53"
      using Cons.prems by simp
    from Cons.IH [OF this] show ?thesis
      using False st by simp
  qed
qed

lemma sum_filter_abs:
  "\<bar>\<Sum>t\<leftarrow>filter P txs. amountCents t\<bar> + \<bar>\<Sum>t\<leftarrow>filter (\<lambda>t. \<not> P t) txs. amountCents t\<bar>
     \<le> (\<Sum>t\<leftarrow>txs. \<bar>amountCents t\<bar>)"
  by (induction txs) auto

lemma round_nearest:
  fixes y :: rat and i n :: int
  assumes i: "0 < i" and close: "2 * of_int i * \<bar>y - of_int (100 * n) / of_int i\<bar> < 1"
  shows "\<bar>of_int (Math_round y) - of_int (100 * n) / (of_int i :: rat)\<bar> \<le> 1 / 2"
proof -
  define r where "r = Math_round y"
  define x :: rat where "x = of_int (100 * n) / of_int i"
  have ipos: "(0::rat) < of_int i"
    using i by simp
  have r1: "of_int r \<le> y + 1 / 2" and r2: "y + 1 / 2 < of_int r + 1"
    unfolding r_def Math_round_def by linarith+
  have xi: "x * of_int i = of_int (100 * n)"
    unfolding x_def using ipos by simp
  have cl: "2 * of_int i * \<bar>y - x\<bar> < 1"
    using close unfolding x_def .
  have lower: "of_int r - 1 / 2 \<le> x"
  proof (rule ccontr)
    assume "\<not> of_int r - 1 / 2 \<le> x"
    then have "x < of_int r - 1 / 2"
      by simp
    then have "x * of_int i < (of_int r - 1 / 2) * of_int i"
      using ipos by (simp only: mult_less_cancel_right_pos)
    then have "(of_int (200 * n) :: rat) < of_int ((2 * r - 1) * i)"
      using xi by (simp add: algebra_simps)
    then have "200 * n < (2 * r - 1) * i"
      by (simp only: of_int_less_iff)
    then have "200 * n + 1 \<le> (2 * r - 1) * i"
      by simp
    then have "(of_int (200 * n + 1) :: rat) \<le> of_int ((2 * r - 1) * i)"
      by (simp only: of_int_le_iff)
    then have "2 * (x * of_int i) + 1 \<le> (2 * of_int r - 1) * of_int i"
      unfolding xi by simp
    moreover have "(2 * of_int r - 1) * of_int i \<le> 2 * y * of_int i"
      using r1 ipos by (simp add: mult_right_mono)
    ultimately have "1 \<le> 2 * of_int i * (y - x)"
      by (simp add: algebra_simps)
    moreover have "2 * of_int i * (y - x) \<le> 2 * of_int i * \<bar>y - x\<bar>"
      using ipos by (simp add: mult_left_mono)
    ultimately show False
      using cl by linarith
  qed
  have upper: "x \<le> of_int r + 1 / 2"
  proof (rule ccontr)
    assume "\<not> x \<le> of_int r + 1 / 2"
    then have "of_int r + 1 / 2 < x"
      by simp
    then have "(of_int r + 1 / 2) * of_int i < x * of_int i"
      using ipos by (simp only: mult_less_cancel_right_pos)
    then have "(of_int ((2 * r + 1) * i) :: rat) < of_int (200 * n)"
      using xi by (simp add: algebra_simps)
    then have "(2 * r + 1) * i < 200 * n"
      by (simp only: of_int_less_iff)
    then have "(2 * r + 1) * i + 1 \<le> 200 * n"
      by simp
    then have "(of_int ((2 * r + 1) * i + 1) :: rat) \<le> of_int (200 * n)"
      by (simp only: of_int_le_iff)
    then have "(2 * of_int r + 1) * of_int i + 1 \<le> 2 * (x * of_int i)"
      unfolding xi by simp
    moreover have "2 * y * of_int i \<le> (2 * of_int r + 1) * of_int i"
      using r2 ipos by (simp add: mult_right_mono)
    ultimately have "1 \<le> 2 * of_int i * (x - y)"
      by (simp add: algebra_simps)
    moreover have "2 * of_int i * (x - y) \<le> 2 * of_int i * \<bar>y - x\<bar>"
      using ipos by (simp add: mult_left_mono)
    ultimately show False
      using cl by linarith
  qed
  have "of_int r - x \<le> 1 / 2" and "- (of_int r - x) \<le> 1 / 2"
    using lower upper by linarith+
  then have "\<bar>of_int r - x\<bar> \<le> 1 / 2"
    by (simp only: abs_le_iff simp_thms)
  then show ?thesis
    unfolding r_def x_def .
qed

lemma rate_close:
  fixes i n :: int
  assumes i: "0 < i" and n: "\<bar>n\<bar> < 10 ^ 13"
  shows "2 * of_int i * \<bar>fl (fl (of_int n / of_int i) * 100) - of_int (100 * n) / of_int i\<bar> < 1"
proof -
  define z :: rat where "z = of_int n / of_int i"
  define q where "q = fl z"
  define y where "y = fl (q * 100)"
  have ipos: "(0::rat) < of_int i"
    using i by simp
  have e1: "\<bar>q - z\<bar> \<le> \<bar>z\<bar> / 2 ^ 53"
    unfolding q_def by (rule fl_error)
  have e2: "\<bar>y - q * 100\<bar> \<le> \<bar>q * 100\<bar> / 2 ^ 53"
    unfolding y_def by (rule fl_error)
  have q2: "\<bar>q\<bar> \<le> 2 * \<bar>z\<bar>"
  proof -
    have "\<bar>q\<bar> \<le> \<bar>q - z\<bar> + \<bar>z\<bar>"
      by simp
    also have "\<dots> \<le> \<bar>z\<bar> / 2 ^ 53 + \<bar>z\<bar>"
      using e1 by simp
    also have "\<dots> \<le> 2 * \<bar>z\<bar>"
      by simp
    finally show ?thesis .
  qed
  have "\<bar>y - z * 100\<bar> \<le> \<bar>y - q * 100\<bar> + 100 * \<bar>q - z\<bar>"
    by (simp add: abs_if split: if_splits)
  also have "\<dots> \<le> \<bar>q\<bar> * 100 / 2 ^ 53 + 100 * (\<bar>z\<bar> / 2 ^ 53)"
    using e1 e2 by (simp add: abs_mult)
  also have "\<dots> \<le> 300 * \<bar>z\<bar> / 2 ^ 53"
    using q2 by simp
  finally have d: "\<bar>y - z * 100\<bar> \<le> 300 * \<bar>z\<bar> / 2 ^ 53" .
  have "z * of_int i = of_int n"
    unfolding z_def using ipos by simp
  then have "\<bar>z * of_int i\<bar> = \<bar>of_int n :: rat\<bar>"
    by (simp only:)
  then have zi: "\<bar>z\<bar> * of_int i = of_int \<bar>n\<bar>"
    using ipos by (simp add: abs_mult)
  have "(of_int \<bar>n\<bar> :: rat) < of_int (10 ^ 13)"
    using n by (simp only: of_int_less_iff)
  then have nb: "(of_int \<bar>n\<bar> :: rat) < 10 ^ 13"
    by simp
  have "2 * of_int i * \<bar>y - z * 100\<bar> \<le> 2 * of_int i * (300 * \<bar>z\<bar> / 2 ^ 53)"
    using d ipos by (simp only: mult_le_cancel_left_pos zero_less_mult_iff zero_less_numeral simp_thms)
  also have "\<dots> = 600 * (\<bar>z\<bar> * of_int i) / 2 ^ 53"
    by simp
  also have "\<dots> = 600 * of_int \<bar>n\<bar> / 2 ^ 53"
    unfolding zi ..
  also have "\<dots> < 1"
    using nb by simp
  finally have "2 * of_int i * \<bar>y - z * 100\<bar> < 1" .
  moreover have "z * 100 = of_int (100 * n) / of_int i"
    unfolding z_def by simp
  ultimately show ?thesis
    unfolding y_def q_def z_def by (simp only:)
qed

subsection \<open>The calendar\<close>



















subsection \<open>Digits\<close>

lemma js_Nil: "js [] = []"
  by (simp add: js_def)


lemma length_js: "length (js s) = length s"
  by (simp add: js_def)




















lemma monthStart_bounds: "0 \<le> monthStart m l" if "0 \<le> l"
  using that by (simp add: monthStart_def)


subsection \<open>Dates of a host that has every midnight\<close>











section \<open>The claims\<close>

subsection \<open>C5: totals\<close>

text \<open>
  C5. For every list of transactions whose amounts are less than \<open>10^13\<close> cents in
  total, \<open>income\<close> is the sum of the amounts of the income transactions,
  \<open>expense\<close> is the sum of the amounts of all the others, \<open>net\<close> is
  \<open>income - expense\<close>, and when \<open>income\<close> is positive \<open>savingsRate\<close> is an
  integer nearest to \<open>100 * net / income\<close>: it differs from the exact percentage by
  at most one half. When the percentage is halfway between two integers the rate is one
  of the two, and which one is decided by the rounding of the quotient
  \<open>net / income\<close> to a double (see the counterexample below). When \<open>income\<close> is
  not positive, \<open>savingsRate\<close> is 0 whatever the expense.
\<close>

theorem totals_postcondition:
  assumes "(\<Sum>t\<leftarrow>txs. \<bar>amountCents t\<bar>) < 10 ^ 13"
  shows "income (totals txs) = (\<Sum>t\<leftarrow>filter (\<lambda>t. tx_type t = Income) txs. amountCents t)
       \<and> expense (totals txs) = (\<Sum>t\<leftarrow>filter (\<lambda>t. tx_type t \<noteq> Income) txs. amountCents t)
       \<and> net (totals txs) = income (totals txs) - expense (totals txs)
       \<and> (0 < income (totals txs) \<longrightarrow>
            \<bar>of_int (savingsRate (totals txs))
               - 100 * of_int (net (totals txs)) / (of_int (income (totals txs)) :: rat)\<bar> \<le> 1 / 2)
       \<and> (income (totals txs) \<le> 0 \<longrightarrow> savingsRate (totals txs) = 0)"
proof -
  define inc where "inc = (\<Sum>t\<leftarrow>filter (\<lambda>t. tx_type t = Income) txs. amountCents t)"
  define ex where "ex = (\<Sum>t\<leftarrow>filter (\<lambda>t. tx_type t \<noteq> Income) txs. amountCents t)"
  have "\<bar>0::int\<bar> + \<bar>0\<bar> + (\<Sum>t\<leftarrow>txs. \<bar>amountCents t\<bar>) < 2 ^ 53"
    using assms by simp
  from fold_totalsStep [OF this] have f: "fold totalsStep txs (0, 0) = (inc, ex)"
    unfolding inc_def ex_def by simp
  have b: "\<bar>inc\<bar> + \<bar>ex\<bar> < 10 ^ 13"
    using sum_filter_abs [of "\<lambda>t. tx_type t = Income" txs] assms unfolding inc_def ex_def
    by simp
  then have nb: "\<bar>inc - ex\<bar> < 10 ^ 13"
    by simp
  then have s: "subD inc ex = inc - ex"
    by (simp add: subD_exact)
  have i: "income (totals txs) = inc" and e: "expense (totals txs) = ex"
    and n: "net (totals txs) = inc - ex"
    and r: "savingsRate (totals txs) =
              (if inc > 0 then Math_round (fl (fl (of_int (inc - ex) / of_int inc) * 100)) else 0)"
    unfolding totals_def Let_def f by (simp_all add: s)
  have rate: "\<bar>of_int (savingsRate (totals txs)) - 100 * of_int (inc - ex) / (of_int inc :: rat)\<bar>
                \<le> 1 / 2" if pos: "0 < inc"
  proof -
    have "\<bar>of_int (Math_round (fl (fl (of_int (inc - ex) / of_int inc) * 100)))
            - of_int (100 * (inc - ex)) / (of_int inc :: rat)\<bar> \<le> 1 / 2"
      by (rule round_nearest [OF pos rate_close [OF pos nb]])
    then show ?thesis
      unfolding r using pos by simp
  qed
  show ?thesis
    unfolding i e n using rate r by (simp add: inc_def ex_def)
qed

text \<open>
  The theorem on \<open>halfPercent\<close> (income 40, expense 17) and on \<open>expenseOnly\<close>
  (no income).
\<close>

theorem totals_postcondition_witness:
  "(\<Sum>t\<leftarrow>halfPercent. \<bar>amountCents t\<bar>) < 10 ^ 13
   \<and> income (totals halfPercent) = 40 \<and> expense (totals halfPercent) = 17
   \<and> net (totals halfPercent) = 23
   \<and> \<bar>of_int (savingsRate (totals halfPercent)) - 100 * 23 / (40 :: rat)\<bar> \<le> 1 / 2
   \<and> (\<Sum>t\<leftarrow>expenseOnly. \<bar>amountCents t\<bar>) < 10 ^ 13
   \<and> income (totals expenseOnly) = 0 \<and> expense (totals expenseOnly) = 17
   \<and> savingsRate (totals expenseOnly) = 0"
proof -
  have p: "(\<Sum>t\<leftarrow>halfPercent. \<bar>amountCents t\<bar>) < 10 ^ 13"
    by (simp add: halfPercent_def sampleTx_def)
  have i: "(\<Sum>t\<leftarrow>filter (\<lambda>t. tx_type t = Income) halfPercent. amountCents t) = 40"
    by (simp add: halfPercent_def sampleTx_def)
  have e: "(\<Sum>t\<leftarrow>filter (\<lambda>t. tx_type t \<noteq> Income) halfPercent. amountCents t) = 17"
    by (simp add: halfPercent_def sampleTx_def)
  note t = totals_postcondition [OF p, unfolded i e]
  have a: "income (totals halfPercent) = 40" and b: "expense (totals halfPercent) = 17"
    using t by simp_all
  have n: "net (totals halfPercent) = 23"
    using t unfolding a b by simp
  have r: "\<bar>of_int (savingsRate (totals halfPercent)) - 100 * 23 / (40 :: rat)\<bar> \<le> 1 / 2"
    using t unfolding a n by simp
  have p': "(\<Sum>t\<leftarrow>expenseOnly. \<bar>amountCents t\<bar>) < 10 ^ 13"
    by (simp add: expenseOnly_def sampleTx_def)
  have i': "(\<Sum>t\<leftarrow>filter (\<lambda>t. tx_type t = Income) expenseOnly. amountCents t) = 0"
    by (simp add: expenseOnly_def sampleTx_def)
  have e': "(\<Sum>t\<leftarrow>filter (\<lambda>t. tx_type t \<noteq> Income) expenseOnly. amountCents t) = 17"
    by (simp add: expenseOnly_def sampleTx_def)
  note t' = totals_postcondition [OF p', unfolded i' e']
  have a': "income (totals expenseOnly) = 0" and b': "expense (totals expenseOnly) = 17"
    using t' by simp_all
  have r': "savingsRate (totals expenseOnly) = 0"
    using t' unfolding a' by simp
  show ?thesis
    using p a b n r p' a' b' r' by simp
qed

text \<open>
  Where the claim as the specification words it fails: with income 40 and expense 17 the
  percentage is 57.5 exactly, which \<open>Math.round\<close> (like rounding half away from zero
  and rounding half to even) takes to 58. The program divides first: the double nearest
  to \<open>23 / 40\<close> is below 0.575, its product with 100 is the double just below 57.5,
  and the rate is 57.
\<close>

theorem totals_rounding_counterexample:
  "income (totals halfPercent) = 40 \<and> net (totals halfPercent) = 23
   \<and> savingsRate (totals halfPercent) = 57
   \<and> Math_round (of_int (net (totals halfPercent)) / of_int (income (totals halfPercent)) * 100)
       = 58
   \<and> roundHalfEven (of_int (net (totals halfPercent)) / of_int (income (totals halfPercent)) * 100)
       = 58"
  by code_simp

subsection \<open>C4: the previous period\<close>




end
